theory Spec2Isabelle
  imports Main "HOL-Library.AList"
begin

section \<open>Decision posets over an ordered-set primitive, and their concept lattice\<close>

text \<open>
  A shallow embedding of \<^verbatim>\<open>DecisionLattice_evaluation/decision_tree_structure.py\<close>.
  The module builds on three classes of the \<^verbatim>\<open>fcapy\<close> library (\<^verbatim>\<open>POSet\<close>,
  \<^verbatim>\<open>FormalContext\<close>, \<^verbatim>\<open>ConceptLattice\<close>/\<^verbatim>\<open>FormalConcept\<close>) whose code is not part
  of the repository. What the module consumes from them is modelled from the specification
  (sections 2, 3, 6 and 7) and marked so at each definition; where the library is known to
  behave otherwise than the specification words it, the definition says so.
\<close>

subsection \<open>Errors\<close>

text \<open>
  \<open>ValueError\<close>, \<open>AssertionError\<close>, \<open>NotImplementedError\<close> and \<open>IndexError\<close> are raised by
  the module itself or by Python's built-in lists. \<open>ElementNotFound\<close> stands for the
  lookup failure of the ordered-set primitive, and \<open>ContextError\<close> for a failure of the
  formal context; the specification names no Python class for them.
\<close>

datatype error =
    ValueError
  | AssertionError
  | NotImplementedError
  | IndexError
  | ElementNotFound
  | ContextError

subsection \<open>Python lists and dictionaries\<close>

text \<open>\<^verbatim>\<open>xs.index(x)\<close>: the first position of \<open>x\<close>; Python raises \<^verbatim>\<open>ValueError\<close> when there is none.\<close>

fun first_index :: "'a list \<Rightarrow> 'a \<Rightarrow> nat option" where
  "first_index [] x = None"
| "first_index (y # ys) x = (if y = x then Some 0 else map_option Suc (first_index ys x))"

definition list_index :: "'a list \<Rightarrow> 'a \<Rightarrow> error + nat" where
  "list_index xs x = (case first_index xs x of None \<Rightarrow> Inl ValueError | Some i \<Rightarrow> Inr i)"

text \<open>
  The key of \<^verbatim>\<open>del xs[key]\<close>: an integer position (negative ones count from the end)
  or a slice \<^verbatim>\<open>start:stop\<close> with optional bounds. A position outside
  \<^verbatim>\<open>-len(xs) .. len(xs) - 1\<close> raises \<^verbatim>\<open>IndexError\<close>; the bounds of a slice are clipped
  and an empty slice deletes nothing.
\<close>

datatype key = Index int | Slice "int option" "int option"

definition position :: "nat \<Rightarrow> int \<Rightarrow> nat option" where
  "position n i =
     (if 0 \<le> i \<and> i < int n then Some (nat i)
      else if i < 0 \<and> - int n \<le> i then Some (nat (int n + i))
      else None)"

definition slice_bound :: "nat \<Rightarrow> int \<Rightarrow> nat" where
  "slice_bound n i = (if i < 0 then nat (max 0 (int n + i)) else min n (nat i))"

fun list_delitem :: "'a list \<Rightarrow> key \<Rightarrow> error + 'a list" where
  "list_delitem xs (Index i) =
     (case position (length xs) i of
        None \<Rightarrow> Inl IndexError
      | Some j \<Rightarrow> Inr (take j xs @ drop (Suc j) xs))"
| "list_delitem xs (Slice start stop) =
     (let n = length xs;
          lo = (case start of None \<Rightarrow> 0 | Some a \<Rightarrow> slice_bound n a);
          hi = (case stop of None \<Rightarrow> n | Some b \<Rightarrow> slice_bound n b)
      in Inr (take lo xs @ drop (max lo hi) xs))"

text \<open>
  A dictionary is an association list; \<open>AList.update\<close> is Python's \<^verbatim>\<open>d[k] = v\<close>
  (a new key goes last, a known key keeps its place and takes the new value).
  \<^verbatim>\<open>{p: p_i for p_i, p in enumerate(ps)}\<close>:
\<close>

definition index_map :: "'p list \<Rightarrow> ('p \<times> nat) list" where
  "index_map ps = fold (\<lambda>(p_i, p) d. AList.update p p_i d) (enumerate 0 ps) []"

text \<open>A list comprehension over a call that may raise stops at the first error.\<close>

fun map_result :: "('a \<Rightarrow> error + 'b) \<Rightarrow> 'a list \<Rightarrow> error + 'b list" where
  "map_result f [] = Inr []"
| "map_result f (x # xs) =
     (case f x of
        Inl e \<Rightarrow> Inl e
      | Inr y \<Rightarrow> (case map_result f xs of Inl e \<Rightarrow> Inl e | Inr ys \<Rightarrow> Inr (y # ys)))"

subsection \<open>Comparison functions and classification rules\<close>

text \<open>\<^verbatim>\<open>set(b) & set(a) == set(b)\<close>; the arguments are any iterables, here lists.\<close>

definition compare_set_function :: "'a list \<Rightarrow> 'a list \<Rightarrow> bool" where
  "compare_set_function a b = (set b \<inter> set a = set b)"

record ('p, 't) ClassificationRule =
  premise :: 'p
  target :: 't

definition compare_premise_function ::
  "('a list, 't) ClassificationRule \<Rightarrow> ('a list, 'u) ClassificationRule \<Rightarrow> bool" where
  "compare_premise_function a b = compare_set_function (premise a) (premise b)"

subsection \<open>The ordered-set primitive\<close>

text \<open>
  Modelled from the spec: the class \<^verbatim>\<open>POSet\<close> of \<^verbatim>\<open>fcapy.poset\<close>, which is not in the
  repository. It "stores a sequence of unique elements, a user-supplied less-or-equal
  predicate, and answers comparability, sub/super-element, and direct-neighbor queries,
  optionally memoized"; the caller may "pre-supply a direct sub-elements adjacency to
  avoid recomputation".
\<close>

record 'p POSet =
  elements :: "'p list"
  leq_func :: "'p \<Rightarrow> 'p \<Rightarrow> bool"
  use_cache :: bool
  direct_subelements_cache :: "(nat \<times> nat set) list option"

text \<open>Modelled from the spec: the constructor of \<^verbatim>\<open>POSet\<close> stores its four arguments.\<close>

definition POSet_init ::
  "'p list \<Rightarrow> ('p \<Rightarrow> 'p \<Rightarrow> bool) \<Rightarrow> bool \<Rightarrow> (nat \<times> nat set) list option \<Rightarrow> 'p POSet" where
  "POSet_init els leq uc dsd =
     \<lparr>elements = els, leq_func = leq, use_cache = uc, direct_subelements_cache = dsd\<rparr>"

text \<open>
  Modelled from the spec: \<^verbatim>\<open>POSet.index\<close>. A lookup failure of the primitive is an
  error that propagates to the caller (sections 7 and 9).
\<close>

definition POSet_index :: "'p POSet \<Rightarrow> 'p \<Rightarrow> error + nat" where
  "POSet_index P x =
     (case first_index (elements P) x of None \<Rightarrow> Inl ElementNotFound | Some i \<Rightarrow> Inr i)"

text \<open>
  \<^verbatim>\<open>POSet.add\<close> of \<^verbatim>\<open>fcapy\<close> appends an element that is not yet present. For an element
  that is already present the specification speaks of a failure (sections 4.2 and 7); the
  library adds nothing and returns normally, and that is what the model does. A
  pre-supplied adjacency describes the old elements only, so an append drops it and the
  adjacency is recomputed on demand.
\<close>

definition POSet_add :: "'p POSet \<Rightarrow> 'p \<Rightarrow> error + 'p POSet" where
  "POSet_add P x =
     (if x \<in> set (elements P) then Inr P
      else Inr (P\<lparr>elements := elements P @ [x], direct_subelements_cache := None\<rparr>))"

text \<open>
  Modelled from the spec: \<^verbatim>\<open>POSet.__delitem__\<close> removes by position or slice, as a
  Python list does.
\<close>

definition POSet_delitem :: "'p POSet \<Rightarrow> key \<Rightarrow> error + 'p POSet" where
  "POSet_delitem P k =
     (case list_delitem (elements P) k of
        Inl e \<Rightarrow> Inl e
      | Inr els \<Rightarrow> Inr (P\<lparr>elements := els, direct_subelements_cache := None\<rparr>))"

text \<open>
  Modelled from the spec: the order queries. \<open>sub_elements P i\<close> are the positions of the
  elements below element \<open>i\<close>; \<open>direct_sub_elements P i\<close> is the covering relation (no
  element lies strictly between); the bottom elements are the minimal ones.
\<close>

definition leq_elements :: "'p POSet \<Rightarrow> nat \<Rightarrow> nat \<Rightarrow> bool" where
  "leq_elements P a b = leq_func P (elements P ! a) (elements P ! b)"

definition sub_elements :: "'p POSet \<Rightarrow> nat \<Rightarrow> nat set" where
  "sub_elements P i =
     set (filter (\<lambda>j. j \<noteq> i \<and> leq_elements P j i) [0..<length (elements P)])"

definition direct_sub_elements :: "'p POSet \<Rightarrow> nat \<Rightarrow> nat set" where
  "direct_sub_elements P i =
     set (filter (\<lambda>j. j \<noteq> i \<and> leq_elements P j i \<and>
                      \<not> (\<exists>k \<in> sub_elements P i. j \<in> sub_elements P k))
            [0..<length (elements P)])"

definition direct_sub_elements_dict :: "'p POSet \<Rightarrow> (nat \<times> nat set) list" where
  "direct_sub_elements_dict P =
     (case direct_subelements_cache P of
        Some d \<Rightarrow> d
      | None \<Rightarrow> map (\<lambda>i. (i, direct_sub_elements P i)) [0..<length (elements P)])"

definition bottom_elements :: "'p POSet \<Rightarrow> nat list" where
  "bottom_elements P = filter (\<lambda>i. sub_elements P i = {}) [0..<length (elements P)]"

subsection \<open>The object store\<close>

text \<open>
  \<^verbatim>\<open>POSet\<close> objects are mutable and shared by reference (\<^verbatim>\<open>self._premises = premises\<close>
  keeps the caller's object), so they live in a store: \<open>objects s r\<close> is the object at
  address \<open>r\<close>, and the addresses from \<open>next_ref s\<close> on are free.
\<close>

type_synonym ref = nat

record 'p store =
  objects :: "ref \<Rightarrow> 'p POSet"
  next_ref :: ref

definition alloc :: "'p POSet \<Rightarrow> 'p store \<Rightarrow> ref \<times> 'p store" where
  "alloc P s = (next_ref s, s\<lparr>objects := (objects s)(next_ref s := P), next_ref := Suc (next_ref s)\<rparr>)"

text \<open>\<^verbatim>\<open>copy.deepcopy\<close> of a \<^verbatim>\<open>POSet\<close>: a new object with the same content.\<close>

definition deepcopy :: "ref \<Rightarrow> 'p store \<Rightarrow> ref \<times> 'p store" where
  "deepcopy r s = alloc (objects s r) s"

text \<open>A mutating method of the primitive, run on the object at \<open>r\<close>.\<close>

definition mutate :: "('p POSet \<Rightarrow> error + 'p POSet) \<Rightarrow> ref \<Rightarrow> 'p store \<Rightarrow> error option \<times> 'p store" where
  "mutate m r s =
     (case m (objects s r) of
        Inl e \<Rightarrow> (Some e, s)
      | Inr P \<Rightarrow> (None, s\<lparr>objects := (objects s)(r := P)\<rparr>))"

subsection \<open>DecisionPOSet\<close>

record ('p, 't) DecisionPOSet =
  "premises" :: ref
  targets :: "'t list"
  elements_to_index_map :: "('p \<times> nat) list"
  use_cache_dp :: bool

text \<open>The argument \<^verbatim>\<open>premises\<close> of the constructor: plain elements, or a \<^verbatim>\<open>POSet\<close> object.\<close>

datatype 'p premises_arg = Elements "'p list" | Ordered ref

text \<open>
  \<^verbatim>\<open>DecisionPOSet.__init__\<close>. \<^verbatim>\<open>set(premises)\<close> and \<^verbatim>\<open>len(premises)\<close> read the elements
  of the premise order. The comparison function is the one the caller supplies (the
  default \<^verbatim>\<open>None\<close> of \<^verbatim>\<open>leq_premise_func\<close> is left out: the primitive takes a predicate).
  A failed assertion leaves the \<^verbatim>\<open>POSet\<close> it has just built in the store, unreferenced.
\<close>

definition init ::
  "('p, 't) ClassificationRule list option \<Rightarrow> 'p premises_arg option \<Rightarrow> 't list option \<Rightarrow>
   bool \<Rightarrow> ('p \<Rightarrow> 'p \<Rightarrow> bool) \<Rightarrow> (nat \<times> nat set) list option \<Rightarrow> 'p store \<Rightarrow>
   (error + ('p, 't) DecisionPOSet) \<times> 'p store" where
  "init classification_rules premises_a targets_a uc leq_premise_func direct_subelements_dict s =
     (let args =
        (case classification_rules of
           Some crules \<Rightarrow> Inr (Elements (map premise crules), map target crules)
         | None \<Rightarrow>
             (case (premises_a, targets_a) of
                (Some ps, Some ts) \<Rightarrow> Inr (ps, ts)
              | _ \<Rightarrow> Inl ValueError))
      in case args of
           Inl e \<Rightarrow> (Inl e, s)
         | Inr (ps, ts) \<Rightarrow>
             (let (r, s') =
                (case ps of
                   Elements els \<Rightarrow> alloc (POSet_init els leq_premise_func uc direct_subelements_dict) s
                 | Ordered r \<Rightarrow> (r, s));
                  els = elements (objects s' r)
              in if card (set els) = length els
                 then (Inr \<lparr>premises = r, targets = ts,
                            elements_to_index_map = index_map els, use_cache_dp = uc\<rparr>, s')
                 else (Inl AssertionError, s')))"

text \<open>\<^verbatim>\<open>DecisionPOSet.index\<close>; \<^verbatim>\<open>self._targets[p_i]\<close> raises \<^verbatim>\<open>IndexError\<close> out of range.\<close>

definition index ::
  "('p, 't) DecisionPOSet \<Rightarrow> 'p store \<Rightarrow> ('p, 't) ClassificationRule \<Rightarrow> error + nat option" where
  "index self s element =
     (case POSet_index (objects s (premises self)) (premise element) of
        Inl e \<Rightarrow> Inl e
      | Inr p_i \<Rightarrow>
          if p_i < length (targets self)
          then (if targets self ! p_i = target element then Inr (Some p_i) else Inr None)
          else Inl IndexError)"

text \<open>\<^verbatim>\<open>DecisionPOSet.__len__\<close>.\<close>

definition len :: "('p, 't) DecisionPOSet \<Rightarrow> 'p store \<Rightarrow> nat" where
  "len self s = length (elements (objects s (premises self)))"

text \<open>
  \<^verbatim>\<open>DecisionPOSet.add\<close> (its argument \<^verbatim>\<open>fill_up_cache\<close> is not used by the body). The
  result is the exception raised, if any, with the object and the store as the call
  leaves them.
\<close>

definition add ::
  "('p, 't) DecisionPOSet \<Rightarrow> ('p, 't) ClassificationRule \<Rightarrow> 'p store \<Rightarrow>
   error option \<times> ('p, 't) DecisionPOSet \<times> 'p store" where
  "add self element s =
     (case mutate (\<lambda>P. POSet_add P (premise element)) (premises self) s of
        (Some e, s') \<Rightarrow> (Some e, self, s')
      | (None, s') \<Rightarrow>
          (None,
           self\<lparr>targets := targets self @ [target element],
                elements_to_index_map := index_map (elements (objects s' (premises self)))\<rparr>,
           s'))"

text \<open>
  \<^verbatim>\<open>DecisionPOSet.__delitem__\<close>: the premises first, then the targets. When the second
  deletion raises, the first one has already happened.
\<close>

definition delitem ::
  "('p, 't) DecisionPOSet \<Rightarrow> key \<Rightarrow> 'p store \<Rightarrow>
   error option \<times> ('p, 't) DecisionPOSet \<times> 'p store" where
  "delitem self k s =
     (case mutate (\<lambda>P. POSet_delitem P k) (premises self) s of
        (Some e, s') \<Rightarrow> (Some e, self, s')
      | (None, s') \<Rightarrow>
          (case list_delitem (targets self) k of
             Inl e \<Rightarrow> (Some e, self, s')
           | Inr ts \<Rightarrow>
               (None,
                self\<lparr>targets := ts,
                     elements_to_index_map := index_map (elements (objects s' (premises self)))\<rparr>,
                s')))"

text \<open>
  The operations the class refuses: \<^verbatim>\<open>__and__\<close>, \<^verbatim>\<open>__or__\<close>, \<^verbatim>\<open>__xor__\<close>, \<^verbatim>\<open>__sub__\<close>,
  \<^verbatim>\<open>__eq__\<close> and \<^verbatim>\<open>trace_element\<close>. Each body is \<^verbatim>\<open>raise NotImplementedError\<close>.
\<close>

definition dp_and :: "('p, 't) DecisionPOSet \<Rightarrow> 'o \<Rightarrow> 'p store \<Rightarrow> error + 'r" where
  "dp_and self other s = Inl NotImplementedError"

definition dp_or :: "('p, 't) DecisionPOSet \<Rightarrow> 'o \<Rightarrow> 'p store \<Rightarrow> error + 'r" where
  "dp_or self other s = Inl NotImplementedError"

definition dp_xor :: "('p, 't) DecisionPOSet \<Rightarrow> 'o \<Rightarrow> 'p store \<Rightarrow> error + 'r" where
  "dp_xor self other s = Inl NotImplementedError"

definition dp_sub :: "('p, 't) DecisionPOSet \<Rightarrow> 'o \<Rightarrow> 'p store \<Rightarrow> error + 'r" where
  "dp_sub self other s = Inl NotImplementedError"

definition dp_eq :: "('p, 't) DecisionPOSet \<Rightarrow> 'o \<Rightarrow> 'p store \<Rightarrow> error + 'r" where
  "dp_eq self other s = Inl NotImplementedError"

definition trace_element ::
  "('p, 't) DecisionPOSet \<Rightarrow> 'e \<Rightarrow> string \<Rightarrow> 'p store \<Rightarrow> error + 'r" where
  "trace_element self element direction s = Inl NotImplementedError"

subsection \<open>Formal contexts, concepts and lattices\<close>

text \<open>
  Modelled from the spec: what the conversion consumes from \<^verbatim>\<open>FormalContext\<close>
  (section 6): the two name sequences, \<^verbatim>\<open>extension\<close> and \<^verbatim>\<open>intention\<close> (each may fail, for
  names the context does not know) and the fingerprint \<^verbatim>\<open>hash_fixed()\<close>. The two
  functions are fields, so a theorem about the conversion holds for every context.
\<close>

record ('g, 'm, 'h) FormalContext =
  object_names :: "'g list"
  attribute_names :: "'m list"
  extension :: "'m list \<Rightarrow> error + 'g list"
  intention :: "'g list \<Rightarrow> error + 'm list"
  hash_fixed :: 'h

text \<open>
  Modelled from the spec: a \<^verbatim>\<open>FormalConcept\<close> carries "extent as index tuple, extent as
  names, intent as index tuple, intent as names, context fingerprint"; a
  \<^verbatim>\<open>ConceptLattice\<close> is "a collection of FormalConcepts plus a mapping from each concept's
  index to the indices of its direct sub-concepts".
\<close>

record ('g, 'm, 'h) FormalConcept =
  extent_i :: "nat list"
  extent :: "'g list"
  intent_i :: "nat list"
  intent :: "'m list"
  context_hash :: 'h

record ('g, 'm, 'h) ConceptLattice =
  concepts :: "('g, 'm, 'h) FormalConcept list"
  subconcepts_dict :: "(nat \<times> nat set) list"

text \<open>
  \<^verbatim>\<open>concept_lattice_from_decision_tree\<close>. \<open>premises_c\<close> is the deep copy the synthetic
  premise is added to; the adjacency and the bottom elements are read from the tree's own
  premise order. \<^verbatim>\<open>len(concepts) - 1\<close> is never negative: the copy is not empty, it
  holds the synthetic premise or the premise equal to it.
\<close>

definition concept_lattice_from_decision_tree ::
  "('g, 'm, 'h) FormalContext \<Rightarrow> ('m list, 't) DecisionPOSet \<Rightarrow> 'm list store \<Rightarrow>
   (error + ('g, 'm, 'h) ConceptLattice) \<times> 'm list store" where
  "concept_lattice_from_decision_tree ctx dt s =
     (let (premises_c, s1) = deepcopy (premises dt) s
      in case mutate (\<lambda>P. POSet_add P (attribute_names ctx)) premises_c s1 of
           (Some e, s2) \<Rightarrow> (Inl e, s2)
         | (None, s2) \<Rightarrow>
      (case map_result (extension ctx) (elements (objects s2 premises_c)) of
         Inl e \<Rightarrow> (Inl e, s2)
       | Inr extents \<Rightarrow>
      (case map_result (intention ctx) extents of
         Inl e \<Rightarrow> (Inl e, s2)
       | Inr intents \<Rightarrow>
      (case map_result (map_result (list_index (object_names ctx))) extents of
         Inl e \<Rightarrow> (Inl e, s2)
       | Inr extents_i \<Rightarrow>
      (case map_result (map_result (list_index (attribute_names ctx))) intents of
         Inl e \<Rightarrow> (Inl e, s2)
       | Inr intents_i \<Rightarrow>
           (let cs = map (\<lambda>c_i. \<lparr>extent_i = extents_i ! c_i, extent = extents ! c_i,
                                  intent_i = intents_i ! c_i, intent = intents ! c_i,
                                  context_hash = hash_fixed ctx\<rparr>)
                       [0..<length (elements (objects s2 premises_c))];
                sbc_dict = direct_sub_elements_dict (objects s2 (premises dt));
                bc_i = length cs - 1;
                sbc_dict' = fold (\<lambda>el_i d. AList.update el_i {bc_i} d)
                              (bottom_elements (objects s2 (premises dt))) sbc_dict
            in (Inr \<lparr>concepts = cs, subconcepts_dict = sbc_dict'\<rparr>, s2)))))))"

text \<open>
  Modelled from the spec: a context given by its objects, its attributes and an incidence
  relation. The extension of a set of attributes is "the set of objects having all of
  them", the intention of a set of objects "the attributes common to all of them"; a name
  the context does not know is an error.
\<close>

definition context_of ::
  "'g list \<Rightarrow> 'm list \<Rightarrow> ('g \<Rightarrow> 'm \<Rightarrow> bool) \<Rightarrow> 'h \<Rightarrow> ('g, 'm, 'h) FormalContext" where
  "context_of gs ms I h =
     \<lparr>object_names = gs, attribute_names = ms,
      extension = (\<lambda>B. if set B \<subseteq> set ms then Inr (filter (\<lambda>g. \<forall>m \<in> set B. I g m) gs)
                        else Inl ContextError),
      intention = (\<lambda>A. if set A \<subseteq> set gs then Inr (filter (\<lambda>m. \<forall>g \<in> set A. I g m) ms)
                        else Inl ContextError),
      hash_fixed = h\<rparr>"

subsection \<open>A small tree and two small contexts\<close>

text \<open>
  The rules \<open>({a}, yes)\<close> and \<open>({a, b}, no)\<close>, ordered by the module's comparison function.
  In \<open>ex_context\<close> the objects \<open>g1\<close>, \<open>g2\<close>, \<open>g3\<close> have the attributes \<open>a\<close>; \<open>a\<close>, \<open>b\<close>;
  and \<open>a\<close>, \<open>b\<close>, \<open>c\<close>. \<open>ab_context\<close> has the attributes \<open>a\<close> and \<open>b\<close> only, so its full
  attribute set is the second premise of the tree.
\<close>

definition ex_rules :: "(string list, string) ClassificationRule list" where
  "ex_rules = [\<lparr>premise = [''a''], target = ''yes''\<rparr>, \<lparr>premise = [''a'', ''b''], target = ''no''\<rparr>]"

definition empty_store :: "'a list store" where
  "empty_store = \<lparr>objects = (\<lambda>r. POSet_init [] compare_set_function True None), next_ref = 0\<rparr>"

definition ex_store :: "string list store" where
  "ex_store = snd (alloc (POSet_init (map premise ex_rules) compare_set_function True None) empty_store)"

definition ex_dp :: "(string list, string) DecisionPOSet" where
  "ex_dp = \<lparr>premises = 0, targets = [''yes'', ''no''],
            elements_to_index_map = [([''a''], 0), ([''a'', ''b''], 1)], use_cache_dp = True\<rparr>"

definition ex_incidence :: "string \<Rightarrow> string \<Rightarrow> bool" where
  "ex_incidence g m = (m = ''a'' \<or> (g \<noteq> ''g1'' \<and> m = ''b'') \<or> (g = ''g3'' \<and> m = ''c''))"

definition ex_context :: "(string, string, nat) FormalContext" where
  "ex_context = context_of [''g1'', ''g2'', ''g3''] [''a'', ''b'', ''c''] ex_incidence 42"

definition ab_context :: "(string, string, nat) FormalContext" where
  "ab_context = context_of [''g1'', ''g2''] [''a'', ''b''] ex_incidence 7"

text \<open>The lattice the conversion returns for the tree and \<open>ex_context\<close>.\<close>

definition ex_lattice :: "(string, string, nat) ConceptLattice" where
  "ex_lattice =
     \<lparr>concepts =
        [\<lparr>extent_i = [0, 1, 2], extent = [''g1'', ''g2'', ''g3''],
          intent_i = [0], intent = [''a''], context_hash = 42\<rparr>,
         \<lparr>extent_i = [1, 2], extent = [''g2'', ''g3''],
          intent_i = [0, 1], intent = [''a'', ''b''], context_hash = 42\<rparr>,
         \<lparr>extent_i = [2], extent = [''g3''],
          intent_i = [0, 1, 2], intent = [''a'', ''b'', ''c''], context_hash = 42\<rparr>],
      subconcepts_dict = [(0, {1}), (1, {2})]\<rparr>"

text \<open>The lattice the conversion returns for the tree and \<open>ab_context\<close>.\<close>

definition ab_lattice :: "(string, string, nat) ConceptLattice" where
  "ab_lattice =
     \<lparr>concepts =
        [\<lparr>extent_i = [0, 1], extent = [''g1'', ''g2''],
          intent_i = [0], intent = [''a''], context_hash = 7\<rparr>,
         \<lparr>extent_i = [1], extent = [''g2''],
          intent_i = [0, 1], intent = [''a'', ''b''], context_hash = 7\<rparr>],
      subconcepts_dict = [(0, {1}), (1, {1})]\<rparr>"

text \<open>What the constructor returns for two premises and one target.\<close>

definition short_store :: "string list store" where
  "short_store = snd (alloc (POSet_init [[''a''], [''a'', ''b'']] compare_set_function True None) empty_store)"

definition short_dp :: "(string list, string) DecisionPOSet" where
  "short_dp = \<lparr>premises = 0, targets = [''yes''],
               elements_to_index_map = [([''a''], 0), ([''a'', ''b''], 1)], use_cache_dp = True\<rparr>"

text \<open>A store whose object \<open>0\<close> holds the same premise twice.\<close>

definition dup_store :: "string list store" where
  "dup_store = snd (alloc (POSet_init [[''a''], [''a'']] compare_set_function True None) empty_store)"

section \<open>Properties\<close>

subsection \<open>Auxiliary facts\<close>

lemma first_index_None: "first_index xs x = None \<longleftrightarrow> x \<notin> set xs"
  by (induction xs) auto

lemma first_index_Some: "first_index xs x = Some i \<Longrightarrow> i < length xs \<and> xs ! i = x"
  by (induction xs arbitrary: i) (auto split: if_splits)

lemma first_index_distinct:
  "distinct xs \<Longrightarrow> i < length xs \<Longrightarrow> first_index xs (xs ! i) = Some i"
proof (induction xs arbitrary: i)
  case Nil
  then show ?case by simp
next
  case (Cons y ys)
  show ?case
  proof (cases i)
    case 0
    then show ?thesis by simp
  next
    case (Suc k)
    with Cons.prems have "ys ! k \<in> set ys" by simp
    with Cons.prems have "y \<noteq> ys ! k" by auto
    with Cons Suc show ?thesis by simp
  qed
qed

lemma init_ex:
  "init (Some ex_rules) None None True compare_set_function None empty_store = (Inr ex_dp, ex_store)"
  by (simp add: init_def ex_rules_def ex_dp_def ex_store_def empty_store_def alloc_def
      POSet_init_def index_map_def)

lemma card_length_distinct: "(card (set xs) = length xs) = distinct xs"
  by (auto simp: distinct_card card_distinct)

lemma first_index_append_new:
  "x \<notin> set xs \<Longrightarrow> first_index (xs @ [x]) x = Some (length xs)"
  by (induction xs) auto

lemma init_rules:
  "init (Some crules) pa ta uc leq dsd s =
     (let s' = snd (alloc (POSet_init (map premise crules) leq uc dsd) s)
      in if distinct (map premise crules)
         then (Inr \<lparr>premises = next_ref s, targets = map target crules,
                    elements_to_index_map = index_map (map premise crules), use_cache_dp = uc\<rparr>, s')
         else (Inl AssertionError, s'))"
  by (simp add: init_def Let_def alloc_def POSet_init_def card_length_distinct)

lemma init_elements:
  "init None (Some (Elements els)) (Some ts) uc leq dsd s =
     (let s' = snd (alloc (POSet_init els leq uc dsd) s)
      in if distinct els
         then (Inr \<lparr>premises = next_ref s, targets = ts,
                    elements_to_index_map = index_map els, use_cache_dp = uc\<rparr>, s')
         else (Inl AssertionError, s'))"
  by (simp add: init_def Let_def alloc_def POSet_init_def card_length_distinct)

lemma init_ordered:
  "init None (Some (Ordered r)) (Some ts) uc leq dsd s =
     (if distinct (elements (objects s r))
      then (Inr \<lparr>premises = r, targets = ts,
                 elements_to_index_map = index_map (elements (objects s r)), use_cache_dp = uc\<rparr>, s)
      else (Inl AssertionError, s))"
  by (simp add: init_def Let_def card_length_distinct)

lemma init_incomplete:
  "pa = None \<or> ta = None \<Longrightarrow> init None pa ta uc leq dsd s = (Inl ValueError, s)"
  by (auto simp: init_def split: option.splits)

lemma index_found:
  assumes "distinct (elements (objects s (premises dp)))"
    and "i < length (elements (objects s (premises dp)))" and "i < length (targets dp)"
    and "elements (objects s (premises dp)) ! i = p"
  shows "index dp s \<lparr>premise = p, target = t\<rparr> = (if targets dp ! i = t then Inr (Some i) else Inr None)"
proof -
  have "first_index (elements (objects s (premises dp))) p = Some i"
    using assms first_index_distinct by fastforce
  then show ?thesis using assms(3) by (simp add: index_def POSet_index_def)
qed

lemma index_absent:
  assumes "p \<notin> set (elements (objects s (premises dp)))"
  shows "index dp s \<lparr>premise = p, target = t\<rparr> = Inl ElementNotFound"
proof -
  have "first_index (elements (objects s (premises dp))) p = None"
    using assms by (simp add: first_index_None)
  then show ?thesis by (simp add: index_def POSet_index_def)
qed

lemma index_Some:
  assumes "index dp s \<lparr>premise = p, target = t\<rparr> = Inr (Some i)"
  shows "i < length (elements (objects s (premises dp))) \<and>
         elements (objects s (premises dp)) ! i = p \<and> targets dp ! i = t"
proof -
  from assms obtain j where j: "first_index (elements (objects s (premises dp))) p = Some j"
    by (cases "first_index (elements (objects s (premises dp))) p")
       (simp_all add: index_def POSet_index_def)
  with assms have "j = i \<and> targets dp ! i = t"
    by (simp add: index_def POSet_index_def split: if_splits)
  with first_index_Some [OF j] show ?thesis by simp
qed

lemma ex_store_elements: "elements (objects ex_store 0) = [[''a''], [''a'', ''b'']]"
  by (simp add: ex_store_def ex_rules_def alloc_def empty_store_def POSet_init_def)

lemma ex_dp_fields: "premises ex_dp = 0" "targets ex_dp = [''yes'', ''no'']"
  by (simp_all add: ex_dp_def)

lemma add_absent:
  assumes "premise rule \<notin> set (elements (objects s (premises dp)))"
  shows "add dp rule s =
     (None,
      dp\<lparr>targets := targets dp @ [target rule],
         elements_to_index_map := index_map (elements (objects s (premises dp)) @ [premise rule])\<rparr>,
      s\<lparr>objects := (objects s)(premises dp :=
           (objects s (premises dp))\<lparr>elements := elements (objects s (premises dp)) @ [premise rule],
                                      direct_subelements_cache := None\<rparr>)\<rparr>)"
  using assms by (simp add: add_def mutate_def POSet_add_def)

lemma add_present:
  assumes "premise rule \<in> set (elements (objects s (premises dp)))"
  shows "add dp rule s =
     (None,
      dp\<lparr>targets := targets dp @ [target rule],
         elements_to_index_map := index_map (elements (objects s (premises dp)))\<rparr>,
      s)"
  using assms by (simp add: add_def mutate_def POSet_add_def)

lemma list_delitem_length:
  assumes "length xs = length ys"
  shows "(case list_delitem xs k of
            Inl e \<Rightarrow> list_delitem ys k = Inl e
          | Inr xs' \<Rightarrow> (\<exists>ys'. list_delitem ys k = Inr ys' \<and> length xs' = length ys'))"
proof (cases k)
  case (Index i)
  with assms show ?thesis
    by (cases "position (length ys) i") simp_all
next
  case (Slice start stop)
  with assms show ?thesis by (simp add: Let_def)
qed

lemma distinct_take_drop:
  assumes "distinct xs" and "lo \<le> hi"
  shows "distinct (take lo xs @ drop hi xs)"
proof -
  have "distinct (take lo xs @ drop lo xs)" using assms(1) by simp
  then have "set (take lo xs) \<inter> set (drop lo xs) = {}" by (simp only: distinct_append)
  moreover have "set (drop hi xs) \<subseteq> set (drop lo xs)"
    using assms(2) by (rule set_drop_subset_set_drop)
  ultimately have "set (take lo xs) \<inter> set (drop hi xs) = {}" by blast
  with assms(1) show ?thesis by simp
qed

lemma list_delitem_distinct:
  assumes "distinct xs" and "list_delitem xs k = Inr ys"
  shows "distinct ys"
proof (cases k)
  case (Index i)
  with assms(2) obtain j where "ys = take j xs @ drop (Suc j) xs"
    by (cases "position (length xs) i") auto
  with assms(1) distinct_take_drop [of xs j "Suc j"] show ?thesis by simp
next
  case (Slice start stop)
  with assms(2) obtain lo hi where "ys = take lo xs @ drop (max lo hi) xs"
    by (auto simp: Let_def)
  with assms(1) distinct_take_drop [of xs lo "max lo hi"] show ?thesis by simp
qed

text \<open>The premises of a \<^verbatim>\<open>DecisionPOSet\<close> are pairwise distinct: the constructor asserts it,
  and \<^verbatim>\<open>add\<close> and \<^verbatim>\<open>__delitem__\<close> keep it.\<close>

lemma init_distinct:
  assumes "init cr pa ta uc leq dsd s = (Inr dp, s')"
  shows "distinct (elements (objects s' (premises dp)))"
proof (cases cr)
  case (Some crules)
  with assms show ?thesis
    by (auto simp: init_rules Let_def alloc_def POSet_init_def split: if_splits)
next
  case None
  show ?thesis
  proof (cases "pa = None \<or> ta = None")
    case True
    with None assms show ?thesis by (simp add: init_incomplete)
  next
    case False
    then obtain p ts where pa: "pa = Some p" and ta: "ta = Some ts" by auto
    show ?thesis
    proof (cases p)
      case (Elements els)
      with None pa ta assms show ?thesis
        by (auto simp: init_elements Let_def alloc_def POSet_init_def split: if_splits)
    next
      case (Ordered r)
      with None pa ta assms show ?thesis
        by (auto simp: init_ordered split: if_splits)
    qed
  qed
qed

lemma add_distinct:
  assumes "distinct (elements (objects s (premises dp)))" and "add dp rule s = (e, dp', s')"
  shows "distinct (elements (objects s' (premises dp')))"
proof (cases "premise rule \<in> set (elements (objects s (premises dp)))")
  case True
  with assms show ?thesis by (auto simp: add_present)
next
  case False
  with assms show ?thesis by (auto simp: add_absent)
qed

lemma delitem_distinct:
  assumes "distinct (elements (objects s (premises dp)))" and "delitem dp k s = (e, dp', s')"
  shows "distinct (elements (objects s' (premises dp')))"
proof (cases "list_delitem (elements (objects s (premises dp))) k")
  case (Inl err)
  with assms show ?thesis by (simp add: delitem_def mutate_def POSet_delitem_def)
next
  case (Inr els)
  with assms(1) have "distinct els" by (rule list_delitem_distinct)
  with Inr assms(2) show ?thesis
    by (auto simp: delitem_def mutate_def POSet_delitem_def split: sum.splits)
qed

lemma add_sync:
  assumes "len dp s = length (targets dp)"
    and "premise rule \<notin> set (elements (objects s (premises dp)))"
    and "add dp rule s = (e, dp', s')"
  shows "e = None \<and> len dp' s' = length (targets dp')"
  using assms by (auto simp: add_absent len_def)

lemma delitem_sync:
  assumes "len dp s = length (targets dp)" and "delitem dp k s = (e, dp', s')"
  shows "len dp' s' = length (targets dp') \<and> (e \<noteq> None \<longrightarrow> dp' = dp \<and> s' = s)"
proof (cases "list_delitem (elements (objects s (premises dp))) k")
  case (Inl err)
  with assms(2) have "dp' = dp \<and> s' = s"
    by (simp add: delitem_def mutate_def POSet_delitem_def)
  with assms(1) show ?thesis by simp
next
  case (Inr els)
  with list_delitem_length [of "elements (objects s (premises dp))" "targets dp" k] assms(1)
  obtain ts where ts: "list_delitem (targets dp) k = Inr ts" "length els = length ts"
    by (auto simp: len_def)
  with Inr assms(2) show ?thesis
    by (auto simp: delitem_def mutate_def POSet_delitem_def len_def)
qed

lemma init_short:
  "init None (Some (Elements [[''a''], [''a'', ''b'']])) (Some [''yes'']) True compare_set_function
     None empty_store = (Inr short_dp, short_store)"
  by (simp add: init_elements Let_def short_dp_def short_store_def index_map_def empty_store_def alloc_def)

lemma short_store_elements: "elements (objects short_store 0) = [[''a''], [''a'', ''b'']]"
  by (simp add: short_store_def alloc_def empty_store_def POSet_init_def)

lemma short_dp_fields: "premises short_dp = 0" "targets short_dp = [''yes'']"
  by (simp_all add: short_dp_def)

lemma map_result_Inr:
  "map_result f xs = Inr ys \<Longrightarrow> length ys = length xs \<and> (\<forall>i < length xs. f (xs ! i) = Inr (ys ! i))"
proof (induction xs arbitrary: ys)
  case Nil
  then show ?case by simp
next
  case (Cons x xs)
  from Cons.prems obtain y ys' where y: "f x = Inr y" and ys': "map_result f xs = Inr ys'"
    and ys: "ys = y # ys'"
    by (auto split: sum.splits)
  from Cons.IH [OF ys'] have ih: "length ys' = length xs" "\<forall>i < length xs. f (xs ! i) = Inr (ys' ! i)"
    by simp_all
  show ?case
  proof (intro conjI allI impI)
    show "length ys = length (x # xs)" using ih ys by simp
  next
    fix i assume "i < length (x # xs)"
    then show "f ((x # xs) ! i) = Inr (ys ! i)"
      using y ih ys by (cases i) simp_all
  qed
qed

lemma map_result_total:
  "(\<forall>x \<in> set xs. \<exists>y. f x = Inr y) \<Longrightarrow> \<exists>ys. map_result f xs = Inr ys"
  by (induction xs) auto

lemma map_result_range:
  "map_result f xs = Inr ys \<Longrightarrow> y \<in> set ys \<Longrightarrow> \<exists>x \<in> set xs. f x = Inr y"
proof (induction xs arbitrary: ys)
  case Nil
  then show ?case by simp
next
  case (Cons x xs)
  then show ?case by (auto split: sum.splits)
qed

lemma list_index_total: "x \<in> set xs \<Longrightarrow> \<exists>i. list_index xs x = Inr i"
  by (cases "first_index xs x") (simp_all add: list_index_def first_index_None)

lemma deepcopy_ref: "fst (deepcopy r s) = next_ref s"
  by (simp add: deepcopy_def alloc_def)

lemma deepcopy_objects:
  "objects (snd (deepcopy r s)) = (objects s)(next_ref s := objects s r)"
  by (simp add: deepcopy_def alloc_def)

lemma mutate_objects:
  "objects (snd (mutate m r s)) r' = (if r' = r then objects (snd (mutate m r s)) r else objects s r')"
  by (simp add: mutate_def split: sum.splits)

lemma conv_store:
  "snd (concept_lattice_from_decision_tree ctx dt s) =
     snd (mutate (\<lambda>P. POSet_add P (attribute_names ctx)) (next_ref s) (snd (deepcopy (premises dt) s)))"
  by (simp add: concept_lattice_from_decision_tree_def deepcopy_def alloc_def Let_def
      split: prod.splits option.splits sum.splits)

lemma conv_frame:
  assumes "r < next_ref s"
  shows "objects (snd (concept_lattice_from_decision_tree ctx dt s)) r = objects s r"
proof -
  have "r \<noteq> next_ref s" using assms by simp
  then show ?thesis
    by (simp add: conv_store mutate_objects [of _ "next_ref s" _ r] deepcopy_objects)
qed

lemma conv_Inr:
  assumes "concept_lattice_from_decision_tree ctx dt s = (Inr L, s')"
  shows "\<exists>ps extents intents extents_i intents_i.
       ps = (if attribute_names ctx \<in> set (elements (objects s (premises dt)))
             then elements (objects s (premises dt))
             else elements (objects s (premises dt)) @ [attribute_names ctx]) \<and>
       map_result (extension ctx) ps = Inr extents \<and>
       map_result (intention ctx) extents = Inr intents \<and>
       map_result (map_result (list_index (object_names ctx))) extents = Inr extents_i \<and>
       map_result (map_result (list_index (attribute_names ctx))) intents = Inr intents_i \<and>
       concepts L = map (\<lambda>c_i. \<lparr>extent_i = extents_i ! c_i, extent = extents ! c_i,
                                  intent_i = intents_i ! c_i, intent = intents ! c_i,
                                  context_hash = hash_fixed ctx\<rparr>)
                      [0..<length ps] \<and>
       subconcepts_dict L =
         fold (\<lambda>el_i d. AList.update el_i {length ps - 1} d)
           (bottom_elements (objects s' (premises dt)))
           (direct_sub_elements_dict (objects s' (premises dt)))"
proof (cases "attribute_names ctx \<in> set (elements (objects s (premises dt)))")
  case True
  with assms show ?thesis
    by (auto simp: concept_lattice_from_decision_tree_def deepcopy_def alloc_def mutate_def
      POSet_add_def Let_def simp del: upt_Suc split: sum.splits)
next
  case False
  with assms show ?thesis
    by (auto simp: concept_lattice_from_decision_tree_def deepcopy_def alloc_def mutate_def
      POSet_add_def Let_def simp del: upt_Suc split: sum.splits)
qed


lemma conv_length:
  assumes "fst (concept_lattice_from_decision_tree ctx dt s) = Inr L"
  shows "length (concepts L) =
     (if attribute_names ctx \<in> set (elements (objects s (premises dt)))
      then length (elements (objects s (premises dt)))
      else length (elements (objects s (premises dt))) + 1)"
proof -
  have "concept_lattice_from_decision_tree ctx dt s =
      (Inr L, snd (concept_lattice_from_decision_tree ctx dt s))"
    using assms by (simp add: prod_eq_iff)
  from conv_Inr [OF this] show ?thesis by auto
qed

lemma conv_ex: "fst (concept_lattice_from_decision_tree ex_context ex_dp ex_store) = Inr ex_lattice"
  by code_simp

lemma ex_context_fields:
  "attribute_names ex_context = [''a'', ''b'', ''c'']"
  "object_names ex_context = [''g1'', ''g2'', ''g3'']"
  "hash_fixed ex_context = 42"
  by (simp_all add: ex_context_def context_of_def)

lemma conv_ab: "fst (concept_lattice_from_decision_tree ab_context ex_dp ex_store) = Inr ab_lattice"
  by code_simp

lemma ab_context_fields:
  "attribute_names ab_context = [''a'', ''b'']"
  "object_names ab_context = [''g1'', ''g2'']"
  "hash_fixed ab_context = 7"
  by (simp_all add: ab_context_def context_of_def)


lemma conv_ex_pair:
  "concept_lattice_from_decision_tree ex_context ex_dp ex_store =
     (Inr ex_lattice, snd (concept_lattice_from_decision_tree ex_context ex_dp ex_store))"
  using conv_ex by (simp add: prod_eq_iff)

lemma ex_store_next: "next_ref ex_store = 1"
  by (simp add: ex_store_def alloc_def empty_store_def)



subsection \<open>The comparison functions and the refused operations\<close>

text \<open>
  C10. \<open>compare_set_function a b\<close> holds exactly when every element of \<open>b\<close> is in \<open>a\<close>
  (reverse inclusion); \<open>compare_premise_function\<close> applies it to the premises of two
  rules; for distinct \<open>x\<close> and \<open>y\<close> it is false on \<open>{x}\<close>, \<open>{x, y}\<close> and true on
  \<open>{x, y}\<close>, \<open>{x}\<close>.
\<close>

theorem compare_set_function_reverse_inclusion:
  "(compare_set_function a b \<longleftrightarrow> set b \<subseteq> set a) \<and>
   compare_premise_function r1 r2 = compare_set_function (premise r1) (premise r2) \<and>
   (x \<noteq> y \<longrightarrow> \<not> compare_set_function [x] [x, y] \<and> compare_set_function [x, y] [x])"
  by (auto simp: compare_set_function_def compare_premise_function_def)

theorem compare_set_function_reverse_inclusion_witness:
  "''a'' \<noteq> ''b'' \<and> \<not> compare_set_function [''a''] [''a'', ''b''] \<and>
   compare_set_function [''a'', ''b''] [''a'']"
  using compare_set_function_reverse_inclusion
    [of "[''a'', ''b'']" "[''a'']" "ex_rules ! 0" "ex_rules ! 1" "''a''" "''b''"]
  by simp

text \<open>
  C7. Each of \<^verbatim>\<open>__and__\<close>, \<^verbatim>\<open>__or__\<close>, \<^verbatim>\<open>__xor__\<close>, \<^verbatim>\<open>__sub__\<close>, \<^verbatim>\<open>__eq__\<close> and
  \<^verbatim>\<open>trace_element\<close> raises \<^verbatim>\<open>NotImplementedError\<close> for every object, operand and store;
  none returns a value.
\<close>

theorem unsupported_operations_raise:
  "dp_and self other s = Inl NotImplementedError \<and>
   dp_or self other s = Inl NotImplementedError \<and>
   dp_xor self other s = Inl NotImplementedError \<and>
   dp_sub self other s = Inl NotImplementedError \<and>
   dp_eq self other s = Inl NotImplementedError \<and>
   trace_element self element direction s = Inl NotImplementedError"
  by (simp add: dp_and_def dp_or_def dp_xor_def dp_sub_def dp_eq_def trace_element_def)

subsection \<open>Construction, lookup and mutation\<close>

text \<open>
  C8. Construction raises \<^verbatim>\<open>ValueError\<close> whenever no rule list is given and the premises or
  the targets are missing, and leaves the store as it was. It raises \<^verbatim>\<open>AssertionError\<close>
  whenever the premises it is to be built from (those of the rules, the plain elements, or
  the elements of the \<^verbatim>\<open>POSet\<close> passed in) contain a duplicate. In both cases the result is
  the error and no object.
\<close>

theorem init_failures:
  "(pa = None \<or> ta = None \<longrightarrow> init None pa ta uc leq dsd s = (Inl ValueError, s)) \<and>
   (\<not> distinct (map premise crules) \<longrightarrow>
      fst (init (Some crules) pa' ta' uc leq dsd s) = Inl AssertionError) \<and>
   (\<not> distinct els \<longrightarrow>
      fst (init None (Some (Elements els)) (Some ts) uc leq dsd s) = Inl AssertionError) \<and>
   (\<not> distinct (elements (objects s r)) \<longrightarrow>
      fst (init None (Some (Ordered r)) (Some ts) uc leq dsd s) = Inl AssertionError)"
proof (intro conjI impI)
  assume "pa = None \<or> ta = None"
  then show "init None pa ta uc leq dsd s = (Inl ValueError, s)" by (rule init_incomplete)
next
  assume "\<not> distinct (map premise crules)"
  then show "fst (init (Some crules) pa' ta' uc leq dsd s) = Inl AssertionError"
    by (simp add: init_rules Let_def)
next
  assume "\<not> distinct els"
  then show "fst (init None (Some (Elements els)) (Some ts) uc leq dsd s) = Inl AssertionError"
    by (simp add: init_elements Let_def)
next
  assume "\<not> distinct (elements (objects s r))"
  then show "fst (init None (Some (Ordered r)) (Some ts) uc leq dsd s) = Inl AssertionError"
    by (simp add: init_ordered)
qed

theorem init_failures_witness:
  "init None (Some (Elements [[''a'']])) (None :: string list option) True compare_set_function None
     (empty_store :: string list store) = (Inl ValueError, empty_store) \<and>
   \<not> distinct (map premise (ex_rules @ ex_rules)) \<and>
   fst (init (Some (ex_rules @ ex_rules)) None None True compare_set_function None empty_store)
     = Inl AssertionError \<and>
   \<not> distinct [[''a''], [''a'']] \<and>
   fst (init None (Some (Elements [[''a''], [''a'']])) (Some [''yes'', ''no'']) True
          compare_set_function None empty_store) = Inl AssertionError \<and>
   \<not> distinct (elements (objects dup_store 0)) \<and>
   fst (init None (Some (Ordered 0)) (Some [''yes'', ''no'']) True compare_set_function None
          dup_store) = Inl AssertionError"
proof -
  have d1: "\<not> distinct (map premise (ex_rules @ ex_rules))" by (simp add: ex_rules_def)
  have d2: "\<not> distinct [[''a''], [''a'']]" by simp
  have d3: "\<not> distinct (elements (objects dup_store 0))"
    by (simp add: dup_store_def alloc_def empty_store_def POSet_init_def)
  show ?thesis
    using d1 d2 d3
      init_failures [of "Some (Elements [[''a'']])" "None :: string list option" True
        compare_set_function None "empty_store :: string list store" "ex_rules @ ex_rules"
        None None "[[''a''], [''a'']]" "[''yes'', ''no'']" 0]
      init_failures [of "Some (Elements [[''a'']])" "None :: string list option" True
        compare_set_function None dup_store "ex_rules @ ex_rules"
        None None "[[''a''], [''a'']]" "[''yes'', ''no'']" 0]
    by simp
qed

text \<open>
  C1, as the code has it. In a \<^verbatim>\<open>DecisionPOSet\<close> (its premises are pairwise distinct),
  \<^verbatim>\<open>index\<close> returns \<open>i\<close> when premise \<open>i\<close> is \<open>p\<close> and target \<open>i\<close> is \<open>t\<close>, and only
  then; it returns \<^verbatim>\<open>None\<close> when \<open>p\<close> is premise \<open>i\<close> and target \<open>i\<close> differs from \<open>t\<close>;
  and when \<open>p\<close> is not among the premises the lookup failure of the ordered-set primitive
  propagates: the call raises and returns no value.
\<close>

theorem index_lookup:
  assumes "distinct (elements (objects s (premises dp)))"
  shows "(i < len dp s \<and> i < length (targets dp) \<and>
          elements (objects s (premises dp)) ! i = p \<and> targets dp ! i = t \<longrightarrow>
            index dp s \<lparr>premise = p, target = t\<rparr> = Inr (Some i)) \<and>
         (i < len dp s \<and> i < length (targets dp) \<and>
          elements (objects s (premises dp)) ! i = p \<and> targets dp ! i \<noteq> t \<longrightarrow>
            index dp s \<lparr>premise = p, target = t\<rparr> = Inr None) \<and>
         (p \<notin> set (elements (objects s (premises dp))) \<longrightarrow>
            index dp s \<lparr>premise = p, target = t\<rparr> = Inl ElementNotFound) \<and>
         (index dp s \<lparr>premise = p, target = t\<rparr> = Inr (Some i) \<longrightarrow>
            i < len dp s \<and> elements (objects s (premises dp)) ! i = p \<and> targets dp ! i = t)"
proof (intro conjI impI)
  assume h: "i < len dp s \<and> i < length (targets dp) \<and>
          elements (objects s (premises dp)) ! i = p \<and> targets dp ! i = t"
  then show "index dp s \<lparr>premise = p, target = t\<rparr> = Inr (Some i)"
    using index_found [OF assms, of i p t] by (simp add: len_def)
next
  assume h: "i < len dp s \<and> i < length (targets dp) \<and>
          elements (objects s (premises dp)) ! i = p \<and> targets dp ! i \<noteq> t"
  then show "index dp s \<lparr>premise = p, target = t\<rparr> = Inr None"
    using index_found [OF assms, of i p t] by (simp add: len_def)
next
  assume "p \<notin> set (elements (objects s (premises dp)))"
  then show "index dp s \<lparr>premise = p, target = t\<rparr> = Inl ElementNotFound"
    by (rule index_absent)
next
  assume h: "index dp s \<lparr>premise = p, target = t\<rparr> = Inr (Some i)"
  show "i < len dp s" using index_Some [OF h] by (simp add: len_def)
  show "elements (objects s (premises dp)) ! i = p" using index_Some [OF h] by simp
  show "targets dp ! i = t" using index_Some [OF h] by simp
qed

theorem index_lookup_witness:
  "distinct (elements (objects ex_store (premises ex_dp))) \<and>
   index ex_dp ex_store \<lparr>premise = [''a''], target = ''yes''\<rparr> = Inr (Some 0) \<and>
   index ex_dp ex_store \<lparr>premise = [''a''], target = ''no''\<rparr> = Inr None \<and>
   index ex_dp ex_store \<lparr>premise = [''b''], target = ''yes''\<rparr> = Inl ElementNotFound"
  using index_lookup [of ex_store ex_dp 0 "[''a'']" "''yes''"]
    index_lookup [of ex_store ex_dp 0 "[''a'']" "''no''"]
    index_lookup [of ex_store ex_dp 0 "[''b'']" "''yes''"]
  by (simp add: ex_store_elements ex_dp_fields len_def)

text \<open>
  C1 as stated fails: for the premise \<open>{b}\<close>, absent from the example, \<^verbatim>\<open>index\<close> does not
  return \<^verbatim>\<open>None\<close>.
\<close>

theorem index_absent_counterexample:
  "index ex_dp ex_store \<lparr>premise = [''b''], target = ''yes''\<rparr> = Inl ElementNotFound \<and>
   index ex_dp ex_store \<lparr>premise = [''b''], target = ''yes''\<rparr> \<noteq> Inr None"
  by (simp add: index_def POSet_index_def ex_store_elements ex_dp_fields)

text \<open>
  C4, as the code has it. The premises and the targets have the same length after a
  construction from classification rules, and after a construction from a pair of
  premises and targets of equal length. From a state where the lengths agree,
  \<^verbatim>\<open>__delitem__\<close> leads to a state where they agree, whether it succeeds or raises, and when
  it raises it has changed nothing; \<^verbatim>\<open>add\<close> of a rule whose premise is not yet present
  succeeds and leads to a state where they agree.
\<close>

theorem lengths_synchronised:
  "(init (Some crules) pa ta uc leq dsd s = (Inr dp, s') \<longrightarrow> len dp s' = length (targets dp)) \<and>
   (length els = length ts \<and> init None (Some (Elements els)) (Some ts) uc leq dsd s = (Inr dp, s') \<longrightarrow>
      len dp s' = length (targets dp)) \<and>
   (length (elements (objects s r)) = length ts \<and>
    init None (Some (Ordered r)) (Some ts) uc leq dsd s = (Inr dp, s') \<longrightarrow>
      len dp s' = length (targets dp)) \<and>
   (len dp0 s0 = length (targets dp0) \<and>
    premise rule \<notin> set (elements (objects s0 (premises dp0))) \<and>
    add dp0 rule s0 = (e, dp1, s1) \<longrightarrow>
      e = None \<and> len dp1 s1 = length (targets dp1)) \<and>
   (len dp0 s0 = length (targets dp0) \<and> delitem dp0 k s0 = (e', dp2, s2) \<longrightarrow>
      len dp2 s2 = length (targets dp2) \<and> (e' \<noteq> None \<longrightarrow> dp2 = dp0 \<and> s2 = s0))"
proof (intro conjI impI)
  assume "init (Some crules) pa ta uc leq dsd s = (Inr dp, s')"
  then show "len dp s' = length (targets dp)"
    by (auto simp: init_rules Let_def alloc_def POSet_init_def len_def split: if_splits)
next
  assume "length els = length ts \<and> init None (Some (Elements els)) (Some ts) uc leq dsd s = (Inr dp, s')"
  then show "len dp s' = length (targets dp)"
    by (auto simp: init_elements Let_def alloc_def POSet_init_def len_def split: if_splits)
next
  assume "length (elements (objects s r)) = length ts \<and>
    init None (Some (Ordered r)) (Some ts) uc leq dsd s = (Inr dp, s')"
  then show "len dp s' = length (targets dp)"
    by (auto simp: init_ordered len_def split: if_splits)
next
  assume h: "len dp0 s0 = length (targets dp0) \<and>
    premise rule \<notin> set (elements (objects s0 (premises dp0))) \<and>
    add dp0 rule s0 = (e, dp1, s1)"
  then show "e = None" using add_sync by blast
  from h show "len dp1 s1 = length (targets dp1)" using add_sync by blast
next
  assume h: "len dp0 s0 = length (targets dp0) \<and> delitem dp0 k s0 = (e', dp2, s2)"
  then show "len dp2 s2 = length (targets dp2)" using delitem_sync by blast
  show "dp2 = dp0" if "e' \<noteq> None" using h that delitem_sync by blast
  show "s2 = s0" if "e' \<noteq> None" using h that delitem_sync by blast
qed

theorem lengths_synchronised_witness:
  "init (Some ex_rules) None None True compare_set_function None empty_store = (Inr ex_dp, ex_store) \<and>
   length [[''a''], [''a'', ''b'']] = length [''yes'', ''no''] \<and>
   init None (Some (Elements [[''a''], [''a'', ''b'']])) (Some [''yes'', ''no'']) True
     compare_set_function None empty_store = (Inr ex_dp, ex_store) \<and>
   init None (Some (Ordered 0)) (Some [''yes'', ''no'']) True compare_set_function None ex_store
     = (Inr ex_dp, ex_store) \<and>
   len ex_dp ex_store = length (targets ex_dp) \<and>
   [''b''] \<notin> set (elements (objects ex_store (premises ex_dp))) \<and>
   fst (add ex_dp \<lparr>premise = [''b''], target = ''no''\<rparr> ex_store) = None \<and>
   len (fst (snd (add ex_dp \<lparr>premise = [''b''], target = ''no''\<rparr> ex_store)))
       (snd (snd (add ex_dp \<lparr>premise = [''b''], target = ''no''\<rparr> ex_store)))
     = length (targets (fst (snd (add ex_dp \<lparr>premise = [''b''], target = ''no''\<rparr> ex_store)))) \<and>
   len (fst (snd (delitem ex_dp (Index 0) ex_store))) (snd (snd (delitem ex_dp (Index 0) ex_store)))
     = length (targets (fst (snd (delitem ex_dp (Index 0) ex_store)))) \<and>
   targets (fst (snd (add ex_dp \<lparr>premise = [''b''], target = ''no''\<rparr> ex_store)))
     = [''yes'', ''no'', ''no''] \<and>
   targets (fst (snd (delitem ex_dp (Index 0) ex_store))) = [''no'']"
proof -
  let ?r = "\<lparr>premise = [''b''], target = ''no''\<rparr> :: (string list, string) ClassificationRule"
  have i1: "init (Some ex_rules) None None True compare_set_function None empty_store = (Inr ex_dp, ex_store)"
    by (rule init_ex)
  have i2: "init None (Some (Elements [[''a''], [''a'', ''b'']])) (Some [''yes'', ''no'']) True
     compare_set_function None empty_store = (Inr ex_dp, ex_store)"
    by (simp add: init_elements Let_def ex_dp_def ex_store_def ex_rules_def index_map_def
        empty_store_def)
  have i3: "init None (Some (Ordered 0)) (Some [''yes'', ''no'']) True compare_set_function None ex_store
     = (Inr ex_dp, ex_store)"
    by (simp add: init_ordered ex_store_elements ex_dp_def index_map_def)
  have l: "len ex_dp ex_store = length (targets ex_dp)"
    by (simp add: len_def ex_store_elements ex_dp_fields)
  have a: "premise ?r \<notin> set (elements (objects ex_store (premises ex_dp)))"
    by (simp add: ex_store_elements ex_dp_fields)
  have t1: "targets (fst (snd (add ex_dp ?r ex_store))) = [''yes'', ''no'', ''no'']"
    using a by (simp add: add_absent ex_dp_fields)
  have t2: "targets (fst (snd (delitem ex_dp (Index 0) ex_store))) = [''no'']"
    by (simp add: delitem_def mutate_def POSet_delitem_def position_def ex_store_elements
        ex_dp_fields)
  show ?thesis
    using i1 i2 i3 l a t1 t2
      lengths_synchronised [of ex_rules None None True compare_set_function None empty_store
        ex_dp ex_store "[[''a''], [''a'', ''b'']]" "[''yes'', ''no'']" 0
        ex_dp ex_store ?r "fst (add ex_dp ?r ex_store)" "fst (snd (add ex_dp ?r ex_store))"
        "snd (snd (add ex_dp ?r ex_store))" "Index 0" "fst (delitem ex_dp (Index 0) ex_store)"
        "fst (snd (delitem ex_dp (Index 0) ex_store))" "snd (snd (delitem ex_dp (Index 0) ex_store))"]
    by simp
qed

text \<open>
  C4 as stated fails twice. The constructor checks no lengths, and two premises with one
  target give an object whose sequences differ in length. And \<^verbatim>\<open>add\<close> of a rule whose
  premise is already present appends the target although the premise order has added
  nothing: from the example, with two premises and two targets, it returns normally with
  two premises and three targets.
\<close>

theorem constructor_lengths_counterexample:
  "init None (Some (Elements [[''a''], [''a'', ''b'']])) (Some [''yes'']) True compare_set_function
     None empty_store = (Inr short_dp, short_store) \<and>
   len short_dp short_store = 2 \<and> length (targets short_dp) = 1 \<and>
   len ex_dp ex_store = length (targets ex_dp) \<and>
   fst (add ex_dp \<lparr>premise = [''a''], target = ''maybe''\<rparr> ex_store) = None \<and>
   len (fst (snd (add ex_dp \<lparr>premise = [''a''], target = ''maybe''\<rparr> ex_store)))
       (snd (snd (add ex_dp \<lparr>premise = [''a''], target = ''maybe''\<rparr> ex_store))) = 2 \<and>
   length (targets (fst (snd (add ex_dp \<lparr>premise = [''a''], target = ''maybe''\<rparr> ex_store)))) = 3"
  by (simp add: init_short len_def short_store_elements short_dp_fields add_present
      ex_store_elements ex_dp_fields)

text \<open>
  C9, as the code has it. For a \<^verbatim>\<open>DecisionPOSet\<close> whose premises and targets have the same
  length and a rule whose premise is not present, \<^verbatim>\<open>add\<close> succeeds; afterwards the length
  is one more, \<^verbatim>\<open>index\<close> finds the rule at the new last position, and every position valid
  before holds the premise and the target it held.
\<close>

theorem add_appends:
  assumes "premise rule \<notin> set (elements (objects s (premises dp)))"
    and "len dp s = length (targets dp)"
  shows "\<exists>dp' s'. add dp rule s = (None, dp', s') \<and>
           len dp' s' = len dp s + 1 \<and>
           index dp' s' rule = Inr (Some (len dp s)) \<and>
           (\<forall>i < len dp s.
              elements (objects s' (premises dp')) ! i = elements (objects s (premises dp)) ! i \<and>
              targets dp' ! i = targets dp ! i)"
proof -
  let ?els = "elements (objects s (premises dp))"
  let ?dp' = "fst (snd (add dp rule s))" and ?s' = "snd (snd (add dp rule s))"
  have eq: "add dp rule s = (None, ?dp', ?s')"
    using assms(1) by (simp add: add_absent)
  have els': "elements (objects ?s' (premises ?dp')) = ?els @ [premise rule]"
    and ts': "targets ?dp' = targets dp @ [target rule]"
    using assms(1) by (simp_all add: add_absent)
  have "first_index (?els @ [premise rule]) (premise rule) = Some (length ?els)"
    using assms(1) by (rule first_index_append_new)
  then have idx: "index ?dp' ?s' rule = Inr (Some (len dp s))"
    using assms(2) by (simp add: index_def POSet_index_def els' ts' len_def)
  have len': "len ?dp' ?s' = len dp s + 1"
    by (simp add: len_def els')
  have old: "\<forall>i < len dp s.
      elements (objects ?s' (premises ?dp')) ! i = ?els ! i \<and> targets ?dp' ! i = targets dp ! i"
    using assms(2) by (simp add: els' ts' len_def nth_append)
  from eq len' idx old show ?thesis by blast
qed

theorem add_appends_witness:
  "[''b''] \<notin> set (elements (objects ex_store (premises ex_dp))) \<and>
   len ex_dp ex_store = length (targets ex_dp) \<and>
   (\<exists>dp' s'. add ex_dp \<lparr>premise = [''b''], target = ''no''\<rparr> ex_store = (None, dp', s') \<and>
      len dp' s' = 3 \<and> index dp' s' \<lparr>premise = [''b''], target = ''no''\<rparr> = Inr (Some 2))"
proof -
  have h1: "premise \<lparr>premise = [''b''], target = ''no''\<rparr> \<notin> set (elements (objects ex_store (premises ex_dp)))"
    by (simp add: ex_store_elements ex_dp_fields)
  have h2: "len ex_dp ex_store = length (targets ex_dp)"
    by (simp add: len_def ex_store_elements ex_dp_fields)
  have l: "len ex_dp ex_store = 2"
    by (simp add: len_def ex_store_elements ex_dp_fields)
  show ?thesis
    using h1 h2 add_appends [OF h1 h2] unfolding l by auto
qed

text \<open>
  C9 as stated fails for the object the constructor builds from two premises and one
  target (the counterexample of C4): after \<^verbatim>\<open>add\<close>, the new premise is at position 2 and
  the targets have length 2, so \<^verbatim>\<open>index\<close> of the added rule raises \<^verbatim>\<open>IndexError\<close>.
\<close>

theorem add_index_counterexample:
  "init None (Some (Elements [[''a''], [''a'', ''b'']])) (Some [''yes'']) True compare_set_function
     None empty_store = (Inr short_dp, short_store) \<and>
   [''b''] \<notin> set (elements (objects short_store (premises short_dp))) \<and>
   fst (add short_dp \<lparr>premise = [''b''], target = ''no''\<rparr> short_store) = None \<and>
   index (fst (snd (add short_dp \<lparr>premise = [''b''], target = ''no''\<rparr> short_store)))
         (snd (snd (add short_dp \<lparr>premise = [''b''], target = ''no''\<rparr> short_store)))
         \<lparr>premise = [''b''], target = ''no''\<rparr> = Inl IndexError"
  by (simp add: init_short add_absent short_store_elements short_dp_fields index_def POSet_index_def)

subsection \<open>The conversion to a concept lattice\<close>

text \<open>
  C2, as the code has it. When \<^verbatim>\<open>context.attribute_names\<close> is not an element of the tree's
  premise order, every lattice the conversion returns has one concept per premise of the
  tree and one more, the synthetic one. When it already is an element (the same names in
  the same order), the premise order adds nothing to the copy, no synthetic concept is
  made, and every lattice the conversion returns has one concept per premise and no more.
\<close>

theorem concept_count:
  "(fst (concept_lattice_from_decision_tree ctx dt s) = Inr L \<and>
    attribute_names ctx \<notin> set (elements (objects s (premises dt))) \<longrightarrow>
      length (concepts L) = length (elements (objects s (premises dt))) + 1) \<and>
   (fst (concept_lattice_from_decision_tree ctx dt s) = Inr L \<and>
    attribute_names ctx \<in> set (elements (objects s (premises dt))) \<longrightarrow>
      length (concepts L) = length (elements (objects s (premises dt))))"
proof (intro conjI impI)
  assume "fst (concept_lattice_from_decision_tree ctx dt s) = Inr L \<and>
    attribute_names ctx \<notin> set (elements (objects s (premises dt)))"
  then show "length (concepts L) = length (elements (objects s (premises dt))) + 1"
    using conv_length [of ctx dt s L] by simp
next
  assume "fst (concept_lattice_from_decision_tree ctx dt s) = Inr L \<and>
    attribute_names ctx \<in> set (elements (objects s (premises dt)))"
  then show "length (concepts L) = length (elements (objects s (premises dt)))"
    using conv_length [of ctx dt s L] by simp
qed

theorem concept_count_witness:
  "fst (concept_lattice_from_decision_tree ex_context ex_dp ex_store) = Inr ex_lattice \<and>
   attribute_names ex_context \<notin> set (elements (objects ex_store (premises ex_dp))) \<and>
   length (elements (objects ex_store (premises ex_dp))) = 2 \<and>
   length (concepts ex_lattice) = 3 \<and>
   fst (concept_lattice_from_decision_tree ab_context ex_dp ex_store) = Inr ab_lattice \<and>
   attribute_names ab_context \<in> set (elements (objects ex_store (premises ex_dp))) \<and>
   length (concepts ab_lattice) = 2"
  using conv_ex conv_ab
    concept_count [of ex_context ex_dp ex_store ex_lattice]
    concept_count [of ab_context ex_dp ex_store ab_lattice]
  by (simp add: ex_store_elements ex_dp_fields ex_context_fields ab_context_fields)

text \<open>
  C2 as stated fails: in \<open>ab_context\<close> the full attribute set \<open>{a, b}\<close> is the second premise
  of the example tree, and the conversion returns a lattice of two concepts for the two
  premises, not three.
\<close>

theorem concept_count_counterexample:
  "attribute_names ab_context \<in> set (elements (objects ex_store (premises ex_dp))) \<and>
   length (elements (objects ex_store (premises ex_dp))) = 2 \<and>
   fst (concept_lattice_from_decision_tree ab_context ex_dp ex_store) = Inr ab_lattice \<and>
   length (concepts ab_lattice) = 2"
  by (simp add: conv_ab ab_context_fields ex_store_elements ex_dp_fields ab_lattice_def)



text \<open>
  C5. In every concept of the returned lattice the stored intent is the intention of the
  stored extent, and the fingerprint is \<^verbatim>\<open>context.hash_fixed()\<close>.
\<close>

theorem concepts_closed:
  assumes "concept_lattice_from_decision_tree ctx dt s = (Inr L, s')"
  shows "\<forall>c \<in> set (concepts L).
           intention ctx (extent c) = Inr (intent c) \<and> context_hash c = hash_fixed ctx"
proof
  fix c assume c: "c \<in> set (concepts L)"
  from conv_Inr [OF assms(1)] obtain ps extents intents extents_i intents_i where
    ex: "map_result (extension ctx) ps = Inr extents"
    and ints: "map_result (intention ctx) extents = Inr intents"
    and cs: "concepts L = map (\<lambda>c_i. \<lparr>extent_i = extents_i ! c_i, extent = extents ! c_i,
                                  intent_i = intents_i ! c_i, intent = intents ! c_i,
                                  context_hash = hash_fixed ctx\<rparr>) [0..<length ps]"
    by blast
  from c obtain i where i: "i < length ps"
    and ci: "c = \<lparr>extent_i = extents_i ! i, extent = extents ! i,
                  intent_i = intents_i ! i, intent = intents ! i,
                  context_hash = hash_fixed ctx\<rparr>"
    unfolding cs by auto
  have "length extents = length ps" using map_result_Inr [OF ex] by simp
  with i have "intention ctx (extents ! i) = Inr (intents ! i)"
    using map_result_Inr [OF ints] by simp
  with ci show "intention ctx (extent c) = Inr (intent c) \<and> context_hash c = hash_fixed ctx"
    by simp
qed

theorem concepts_closed_witness:
  "fst (concept_lattice_from_decision_tree ex_context ex_dp ex_store) = Inr ex_lattice \<and>
   intention ex_context [''g1'', ''g2'', ''g3''] = Inr [''a''] \<and>
   intention ex_context [''g2'', ''g3''] = Inr [''a'', ''b''] \<and>
   intention ex_context [''g3''] = Inr [''a'', ''b'', ''c''] \<and>
   map context_hash (concepts ex_lattice) = [42, 42, 42]"
  using conv_ex concepts_closed [OF conv_ex_pair]
  by (simp add: ex_context_fields ex_lattice_def)

text \<open>
  C6. The conversion leaves the tree as it was. It calls no mutating method of the tree and
  assigns none of its attributes, so the targets and the index map, which the object holds
  itself, cannot change. The one thing it shares with the tree is the premise order, and
  that object (its elements, their order and its adjacency), like every object allocated
  before the call, is the same after the call, whether the call returns or raises: the
  synthetic premise goes to the deep copy.
\<close>

theorem tree_unmodified:
  assumes "premises dt < next_ref s"
  shows "objects (snd (concept_lattice_from_decision_tree ctx dt s)) (premises dt)
           = objects s (premises dt) \<and>
         elements (objects (snd (concept_lattice_from_decision_tree ctx dt s)) (premises dt))
           = elements (objects s (premises dt)) \<and>
         direct_sub_elements_dict (objects (snd (concept_lattice_from_decision_tree ctx dt s)) (premises dt))
           = direct_sub_elements_dict (objects s (premises dt)) \<and>
         (\<forall>r < next_ref s. objects (snd (concept_lattice_from_decision_tree ctx dt s)) r = objects s r)"
  using assms by (simp add: conv_frame)

theorem tree_unmodified_witness:
  "premises ex_dp < next_ref ex_store \<and>
   elements (objects (snd (concept_lattice_from_decision_tree ex_context ex_dp ex_store)) (premises ex_dp))
     = [[''a''], [''a'', ''b'']]"
proof -
  have h: "premises ex_dp < next_ref ex_store" by (simp add: ex_dp_fields ex_store_next)
  show ?thesis
    using h tree_unmodified [OF h, of ex_context] by (simp add: ex_dp_fields ex_store_elements)
qed

end
